theory Spec2Isabelle
  imports Complex_Main "HOL-Library.AList"
begin

section \<open>Text primitives of the Python source\<close>

text \<open>
  Task descriptions, log lines and keywords are Python \<open>str\<close> values. They are modelled
  as \<^typ>\<open>string\<close>, one \<^typ>\<open>char\<close> per code point. A \<^typ>\<open>char\<close> has 256 values, so
  the model covers the strings of code points below 256; the character classes below are
  those of Python's Unicode tables on that range.
\<close>

definition lower_char :: "char \<Rightarrow> char" where
  \<comment> \<open>the capital letters are A to Z and the code points 192 to 222 without the
      multiplication sign 215; each has its small letter 32 places further\<close>
  "lower_char c =
     (let n = (of_char c :: nat)
      in if (65 \<le> n \<and> n \<le> 90) \<or> (192 \<le> n \<and> n \<le> 222 \<and> n \<noteq> 215)
         then char_of (n + 32) else c)"

definition lower :: "string \<Rightarrow> string" where
  \<comment> \<open>\<open>str.lower()\<close>\<close>
  "lower s = map lower_char s"

definition is_space :: "char \<Rightarrow> bool" where
  \<comment> \<open>\<open>str.isspace\<close> and the regular expression class \<open>\s\<close>: tab, line feed, vertical tab,
      form feed, carriage return, the four separators 28..31, the blank, the next-line
      control 133 and the no-break space 160\<close>
  "is_space c =
     (let n = (of_char c :: nat)
      in (9 \<le> n \<and> n \<le> 13) \<or> (28 \<le> n \<and> n \<le> 32) \<or> n = 133 \<or> n = 160)"

definition is_digit :: "char \<Rightarrow> bool" where
  \<comment> \<open>the regular expression class \<open>\d\<close>: the decimal digits, below 256 only 0 to 9\<close>
  "is_digit c = (let n = (of_char c :: nat) in 48 \<le> n \<and> n \<le> 57)"

definition is_word_char :: "char \<Rightarrow> bool" where
  \<comment> \<open>the regular expression class \<open>\w\<close>: the underscore and what \<open>str.isalnum\<close> accepts, that
      is the ASCII letters and digits, the ordinal indicators 170 and 186, the superscript
      digits 178, 179 and 185, the micro sign 181, the fractions 188 to 190 and the letters
      192 to 255 without the signs 215 and 247\<close>
  "is_word_char c =
     (let n = (of_char c :: nat)
      in (48 \<le> n \<and> n \<le> 57) \<or> (65 \<le> n \<and> n \<le> 90) \<or> n = 95 \<or> (97 \<le> n \<and> n \<le> 122)
         \<or> n = 170 \<or> n = 178 \<or> n = 179 \<or> n = 181 \<or> n = 185 \<or> n = 186
         \<or> (188 \<le> n \<and> n \<le> 190) \<or> (192 \<le> n \<and> n \<le> 214) \<or> (216 \<le> n \<and> n \<le> 246)
         \<or> 248 \<le> n)"

definition strip :: "string \<Rightarrow> string" where
  \<comment> \<open>\<open>str.strip()\<close>: white space removed at both ends\<close>
  "strip s = rev (dropWhile is_space (rev (dropWhile is_space s)))"

fun is_prefix :: "string \<Rightarrow> string \<Rightarrow> bool" where
  \<comment> \<open>\<open>s.startswith(p)\<close>, the prefix first\<close>
  "is_prefix [] s = True"
| "is_prefix (p # ps) [] = False"
| "is_prefix (p # ps) (c # cs) = (p = c \<and> is_prefix ps cs)"

fun substring_in :: "string \<Rightarrow> string \<Rightarrow> bool" where
  \<comment> \<open>Python's \<open>kw in text\<close> on strings\<close>
  "substring_in kw [] = (kw = [])"
| "substring_in kw (c # cs) = (is_prefix kw (c # cs) \<or> substring_in kw cs)"

definition count_char :: "char \<Rightarrow> string \<Rightarrow> nat" where
  \<comment> \<open>\<open>s.count(c)\<close> for a one-character \<open>c\<close>\<close>
  "count_char c s = length (filter (\<lambda>d. d = c) s)"


section \<open>The regular expressions of the multi-step test\<close>

text \<open>
  \<open>re.search(p, text)\<close> succeeds when the pattern matches at some position of the text.
  A pattern is modelled by a matcher that says whether it matches at the start of the rest
  of the text, given whether the character before that position is a word character
  (which is what the assertion \<open>\b\<close> looks at).
\<close>

fun search_from :: "(bool \<Rightarrow> string \<Rightarrow> bool) \<Rightarrow> bool \<Rightarrow> string \<Rightarrow> bool" where
  "search_from m prev [] = m prev []"
| "search_from m prev (c # cs) = (m prev (c # cs) \<or> search_from m (is_word_char c) cs)"

definition re_search :: "(bool \<Rightarrow> string \<Rightarrow> bool) \<Rightarrow> string \<Rightarrow> bool" where
  "re_search m s = search_from m False s"

definition word_end :: "string \<Rightarrow> bool" where
  \<comment> \<open>\<open>\b\<close> after a word character: the text ends or goes on with a non-word character\<close>
  "word_end s = (case s of [] \<Rightarrow> True | c # _ \<Rightarrow> \<not> is_word_char c)"

definition word_at :: "string \<Rightarrow> string \<Rightarrow> bool" where
  \<comment> \<open>\<open>w\b\<close> at the start of \<open>s\<close>, for a word \<open>w\<close> of letters\<close>
  "word_at w s = (is_prefix w s \<and> word_end (drop (length w) s))"

definition m_word :: "string \<Rightarrow> bool \<Rightarrow> string \<Rightarrow> bool" where
  \<comment> \<open>\<open>\bw\b\<close>\<close>
  "m_word w prev s = (\<not> prev \<and> word_at w s)"

fun dotstar_then :: "bool \<Rightarrow> string \<Rightarrow> bool" where
  \<comment> \<open>\<open>.*\bthen\b\<close>: the dot matches every character but the line feed\<close>
  "dotstar_then prev [] = False"
| "dotstar_then prev (c # cs) =
     (m_word ''then'' prev (c # cs) \<or> (c \<noteq> CHR 0x0A \<and> dotstar_then (is_word_char c) cs))"

definition m_first_then :: "bool \<Rightarrow> string \<Rightarrow> bool" where
  \<comment> \<open>\<open>\bfirst\b.*\bthen\b\<close>\<close>
  "m_first_then prev s = (m_word ''first'' prev s \<and> dotstar_then True (drop 5 s))"

definition spaces_then :: "(char \<Rightarrow> bool) \<Rightarrow> string \<Rightarrow> bool" where
  \<comment> \<open>\<open>\s+\<close> followed by one character of the class \<open>p\<close>\<close>
  "spaces_then p s =
     (case s of [] \<Rightarrow> False
      | c # cs \<Rightarrow> is_space c \<and> (case dropWhile is_space cs of [] \<Rightarrow> False | d # _ \<Rightarrow> p d))"

definition m_step :: "bool \<Rightarrow> string \<Rightarrow> bool" where
  \<comment> \<open>\<open>\bstep\s+\d+\<close>\<close>
  "m_step prev s = (\<not> prev \<and> is_prefix ''step'' s \<and> spaces_then is_digit (drop 4 s))"

definition m_enum :: "bool \<Rightarrow> string \<Rightarrow> bool" where
  \<comment> \<open>\<open>\d+\.\s+\w+\<close>, at the last digit of the run\<close>
  "m_enum prev s =
     (case s of d # p # r \<Rightarrow> is_digit d \<and> p = CHR ''.'' \<and> spaces_then is_word_char r
      | _ \<Rightarrow> False)"

definition m_comma_then :: "bool \<Rightarrow> string \<Rightarrow> bool" where
  \<comment> \<open>\<open>,\s*then\b\<close>\<close>
  "m_comma_then prev s =
     (case s of [] \<Rightarrow> False
      | c # cs \<Rightarrow> c = CHR '','' \<and> word_at ''then'' (dropWhile is_space cs))"

definition multi_step_patterns :: "(bool \<Rightarrow> string \<Rightarrow> bool) list" where
  "multi_step_patterns =
     [m_first_then, m_step, m_enum, m_word ''next'', m_word ''after'', m_word ''finally'',
      m_comma_then]"


section \<open>FridayRouter: keyword lists\<close>

definition SIMPLE_KEYWORDS :: "string list" where
  "SIMPLE_KEYWORDS =
     [''check'', ''get'', ''fetch'', ''list'', ''show'', ''display'', ''status'',
      ''what is'', ''how much'', ''tell me'', ''find'', ''search'', ''summarize'',
      ''monitor'', ''watch'', ''read'', ''look'', ''simple'', ''quick'', ''fast'']"

definition COMPLEX_KEYWORDS :: "string list" where
  "COMPLEX_KEYWORDS =
     [''build'', ''create'', ''implement'', ''architect'', ''design'', ''system'',
      ''comprehensive'', ''thorough'', ''complex'', ''multi'', ''full-stack'',
      ''authentication'', ''authorization'', ''database'', ''api'', ''service'']"

definition CODE_KEYWORDS :: "string list" where
  "CODE_KEYWORDS =
     [''code'', ''function'', ''class'', ''method'', ''debug'', ''fix'', ''bug'',
      ''refactor'', ''lint'', ''test'', ''unit'', ''integration'', ''component'',
      ''module'', ''package'', ''library'', ''framework'', ''import'', ''export'',
      ''react'', ''vue'', ''angular'', ''node'', ''python'', ''javascript'',
      ''typescript'', ''rust'', ''go'', ''java'', ''api'', ''endpoint'']"

definition REASONING_KEYWORDS :: "string list" where
  "REASONING_KEYWORDS =
     [''prove'', ''theorem'', ''proof'', ''derive'', ''logic'', ''reason'',
      ''analyze'', ''reasoning'', ''step by step'', ''why'', ''how does'',
      ''explain'', ''mathematical'', ''induction'', ''deduction'']"

definition CREATIVE_KEYWORDS :: "string list" where
  "CREATIVE_KEYWORDS =
     [''creative'', ''write'', ''story'', ''poem'', ''article'', ''blog'',
      ''design'', ''UI'', ''UX'', ''frontend'', ''website'', ''landing'',
      ''copy'', ''narrative'', ''brainstorm'', ''idea'', ''concept'']"

definition RESEARCH_KEYWORDS :: "string list" where
  "RESEARCH_KEYWORDS =
     [''research'', ''find'', ''search'', ''lookup'', ''web'', ''information'',
      ''fact'', ''review'', ''compare'', ''vs'', ''versus'', ''difference'',
      ''summary of'', ''what are'', ''best'', ''top'', ''alternatives'']"

definition AGENTIC_KEYWORDS :: "string list" where
  "AGENTIC_KEYWORDS =
     [''run'', ''test'', ''fix'', ''deploy'', ''edit'', ''build'', ''create'',
      ''implement'', ''execute'', ''refactor'', ''migrate'', ''integrate'',
      ''setup'', ''configure'', ''install'', ''compile'', ''debug'']"

definition vision_keywords :: "string list" where
  "vision_keywords =
     [''image'', ''picture'', ''photo'', ''screenshot'', ''visual'', ''see'', ''describe what'']"

definition website_project_keywords :: "string list" where
  "website_project_keywords =
     [''website'', ''web site'', ''landing page'', ''landing'', ''frontend'',
      ''community site'', ''online community'', ''build a site'', ''new site'']"


section \<open>FridayRouter.classify_task\<close>

datatype tier = FAST | REASONING | CREATIVE | RESEARCH | CODE | COMPLEX | VISION | QUALITY

type_synonym tier_scores = "(tier \<times> nat) list"
  \<comment> \<open>the dictionary \<open>tier_scores\<close>, in insertion order\<close>

record classification =
  tier :: tier
  confidence :: rat
  tier_scores :: tier_scores
  is_agentic :: bool

definition keyword_match :: "string \<Rightarrow> string list \<Rightarrow> nat" where
  \<comment> \<open>\<open>_keyword_match\<close>: the number of keywords whose lower-case form occurs in the
      lower-case text\<close>
  "keyword_match text keywords =
     (let text_lower = lower text
      in length (filter (\<lambda>kw. substring_in (lower kw) text_lower) keywords))"

definition score :: "tier_scores \<Rightarrow> tier \<Rightarrow> nat" where
  \<comment> \<open>\<open>tier_scores[k]\<close>; every key read by the source has been inserted before\<close>
  "score ts k = (case map_of ts k of Some v \<Rightarrow> v | None \<Rightarrow> 0)"

definition max_value :: "tier_scores \<Rightarrow> nat" where
  \<comment> \<open>\<open>max(tier_scores.values())\<close>\<close>
  "max_value ts = fold max (map snd ts) 0"

fun max_key_from :: "tier_scores \<Rightarrow> tier \<times> nat \<Rightarrow> tier" where
  \<comment> \<open>the scan of \<open>max\<close> with a key function: a later entry replaces the best one so far
      only when its value is strictly greater\<close>
  "max_key_from [] best = fst best"
| "max_key_from (kv # rest) best = max_key_from rest (if snd best < snd kv then kv else best)"

definition max_key :: "tier_scores \<Rightarrow> tier" where
  \<comment> \<open>\<open>max(tier_scores, key=tier_scores.get)\<close>: the first key, in insertion order, of
      the greatest value. The dictionary always holds its seven keys; on an empty one
      Python has already raised at \<open>max(tier_scores.values())\<close>.\<close>
  "max_key ts = (case ts of kv # rest \<Rightarrow> max_key_from rest kv | [] \<Rightarrow> FAST)"

definition initial_scores :: "string \<Rightarrow> tier_scores" where
  \<comment> \<open>lines 163 to 176: the seven counts, in the order of their insertion\<close>
  "initial_scores task_description =
     [(FAST, keyword_match task_description SIMPLE_KEYWORDS),
      (REASONING, keyword_match task_description REASONING_KEYWORDS),
      (CREATIVE, keyword_match task_description CREATIVE_KEYWORDS),
      (RESEARCH, keyword_match task_description RESEARCH_KEYWORDS),
      (CODE, keyword_match task_description CODE_KEYWORDS),
      (COMPLEX, keyword_match task_description COMPLEX_KEYWORDS),
      (VISION, keyword_match task_description vision_keywords)]"

definition is_multi_step :: "string \<Rightarrow> bool" where
  \<comment> \<open>\<open>any(re.search(p, text) for p in multi_step_patterns)\<close> on the lower-case text\<close>
  "is_multi_step task_description =
     list_ex (\<lambda>p. re_search p (lower task_description)) multi_step_patterns"

definition agentic :: "string \<Rightarrow> bool" where
  \<comment> \<open>\<open>agentic_count >= 2 or is_multi_step\<close>\<close>
  "agentic task_description =
     (2 \<le> keyword_match task_description AGENTIC_KEYWORDS \<or> is_multi_step task_description)"

definition adjust_scores :: "bool \<Rightarrow> tier_scores \<Rightarrow> tier_scores" where
  \<comment> \<open>lines 195 to 199\<close>
  "adjust_scores ag ts =
     (if ag then
        (let ts1 = AList.update CODE (score ts CODE + 2) ts
         in if 0 < score ts1 FAST then AList.update FAST 0 ts1 else ts1)
      else ts)"

definition select_tier :: "tier_scores \<Rightarrow> bool \<Rightarrow> tier" where
  \<comment> \<open>lines 201 to 227; \<open>website\<close> says whether a website keyword matched\<close>
  "select_tier ts website =
     (let best_tier0 = (if max_value ts = 0 then FAST else max_key ts);
          best_tier1 = (if website then CREATIVE else best_tier0);
          best_tier2 = (if best_tier1 = COMPLEX
                        then (if 0 < score ts CODE then CODE else QUALITY)
                        else best_tier1)
      in if 0 < score ts COMPLEX \<and> 0 < score ts FAST \<and> score ts FAST \<le> score ts COMPLEX
         then (if 2 \<le> score ts COMPLEX then QUALITY else CODE)
         else best_tier2)"

definition round3 :: "rat \<Rightarrow> rat" where
  \<comment> \<open>\<open>round(x, 3)\<close>; the source only rounds multiples of one fifth, where no tie arises\<close>
  "round3 x = of_int (round (x * 1000)) / 1000"

definition classify_task :: "string \<Rightarrow> classification" where
  \<comment> \<open>\<open>classify_task(task_description, return_details=True)\<close>\<close>
  "classify_task task_description =
     (let ts0 = initial_scores task_description;
          vision_matches = keyword_match task_description vision_keywords
      in if 0 < vision_matches then
           \<lparr>tier = VISION,
            confidence = min (of_nat vision_matches / 3) 1,
            tier_scores = [(VISION, vision_matches)],
            is_agentic = False\<rparr>
         else
           (let ts = adjust_scores (agentic task_description) ts0;
                website = (0 < keyword_match task_description website_project_keywords)
            in \<lparr>tier = select_tier ts website,
                confidence = round3 (min (of_nat (max_value ts) / 5) 1),
                tier_scores = filter (\<lambda>kv. 0 < snd kv) ts,
                is_agentic = agentic task_description\<rparr>))"

definition public_tiers :: "tier set" where
  "public_tiers = {VISION, FAST, REASONING, CREATIVE, RESEARCH, CODE, QUALITY}"


section \<open>Values decoded from JSON\<close>

text \<open>
  What \<open>json.loads\<close> returns: \<open>None\<close>, a boolean, an integer, a float, a string, a list or a
  dictionary (an association list with distinct keys, in insertion order). A float is
  modelled by the rational it denotes; the special values infinity and NaN are left out.
\<close>

datatype json =
    JNull
  | JBool bool
  | JInt int
  | JFloat rat
  | JString string
  | JArray "json list"
  | JObject "(string \<times> json) list"

fun truthy :: "json \<Rightarrow> bool" where
  \<comment> \<open>the truth value Python gives a decoded value in \<open>if v\<close>, \<open>not v\<close> and \<open>v or d\<close>\<close>
  "truthy JNull = False"
| "truthy (JBool b) = b"
| "truthy (JInt i) = (i \<noteq> 0)"
| "truthy (JFloat r) = (r \<noteq> 0)"
| "truthy (JString s) = (s \<noteq> [])"
| "truthy (JArray xs) = (xs \<noteq> [])"
| "truthy (JObject kvs) = (kvs \<noteq> [])"

datatype py_error =
    AttributeError
  | TypeError
  | ValueError string
  | PermissionError
  | UnicodeDecodeError
  | RecursionError
  | UncaughtError

definition dict_get :: "(string \<times> json) list \<Rightarrow> string \<Rightarrow> json \<Rightarrow> json" where
  \<comment> \<open>\<open>d.get(key, default)\<close> on a dictionary\<close>
  "dict_get d k dflt = (case map_of d k of Some v \<Rightarrow> v | None \<Rightarrow> dflt)"

definition get :: "json \<Rightarrow> string \<Rightarrow> json \<Rightarrow> py_error + json" where
  \<comment> \<open>\<open>v.get(key, default)\<close> on any decoded value: only a dictionary has the method\<close>
  "get v k dflt =
     (case v of JObject d \<Rightarrow> Inr (dict_get d k dflt) | _ \<Rightarrow> Inl AttributeError)"


section \<open>FridayRouter.recommend_model\<close>

record model =
  model_id :: string
  model_alias :: string
  model_tier :: string
  input_cost_per_m :: rat
  output_cost_per_m :: rat
  use_for :: "string list"

record routing_rule =
  primary :: "string option"
  fallback :: "string list"

record config =
  default_model :: "string option"
  models :: "model list"
  routing_rules :: "tier \<rightharpoonup> routing_rule"

record recommendation =
  rec_tier :: tier
  rec_model :: "model option"
  rec_fallback :: "model option"
  rec_classification :: classification
  reasoning :: string

definition explain :: "tier \<Rightarrow> classification \<Rightarrow> string" where
  \<comment> \<open>\<open>_explain\<close>\<close>
  "explain t c =
     (case t of
        FAST \<Rightarrow> ''Simple, quick task - monitoring, checks, summaries''
      | REASONING \<Rightarrow> ''Logical analysis, math, step-by-step reasoning''
      | CREATIVE \<Rightarrow> ''Creative writing, design, frontend work''
      | RESEARCH \<Rightarrow> ''Information lookup, web search, fact-finding''
      | CODE \<Rightarrow> ''Code generation, debugging, implementation''
      | COMPLEX \<Rightarrow> ''Code generation, debugging, implementation''
      | QUALITY \<Rightarrow> ''Complex, comprehensive, architectural work''
      | VISION \<Rightarrow> ''Image analysis, visual understanding'')
     @ (if is_agentic c then '' [Multi-step agentic task detected]'' else [])"

definition find_model :: "config \<Rightarrow> string \<Rightarrow> model option" where
  \<comment> \<open>the inner loop \<open>for m in models: if m['id'] == i: ...; break\<close>\<close>
  "find_model cfg i = find (\<lambda>m. model_id m = i) (models cfg)"

fun resolve_fallback :: "config \<Rightarrow> string list \<Rightarrow> model option \<Rightarrow> model option" where
  \<comment> \<open>lines 280 to 284: the outer loop over \<open>fallback_ids\<close>; the third argument is the
      variable \<open>fallback\<close>. The \<open>break\<close> leaves the inner loop only.\<close>
  "resolve_fallback cfg [] fb = fb"
| "resolve_fallback cfg (fb_id # rest) fb =
     resolve_fallback cfg rest (case find_model cfg fb_id of Some m \<Rightarrow> Some m | None \<Rightarrow> fb)"

definition recommend_model :: "config \<Rightarrow> string \<Rightarrow> recommendation" where
  "recommend_model cfg task_description =
     (let classification = classify_task task_description;
          t = tier classification;
          tier_rules = (case routing_rules cfg t of
                          Some r \<Rightarrow> r
                        | None \<Rightarrow> \<lparr>primary = None, fallback = []\<rparr>);
          m = (case primary tier_rules of None \<Rightarrow> None | Some i \<Rightarrow> find_model cfg i);
          fb = resolve_fallback cfg (fallback tier_rules) None
      in \<lparr>rec_tier = t, rec_model = m, rec_fallback = fb,
          rec_classification = classification, reasoning = explain t classification\<rparr>)"


section \<open>FridayRouter._detect_troubleshooting_loop\<close>

datatype log_file =
    LogExistsRaises
  | LogMissing
  | LogUnreadable
  | LogUndecodable
  | LogLines "string list"
  \<comment> \<open>\<open>gateway.log\<close>: \<open>exists()\<close> itself raises \<open>PermissionError\<close> (the directory cannot be
      searched; line 353 is outside the \<open>try\<close>), the file is absent, opening or reading it
      raises \<open>OSError\<close>, reading it raises \<open>UnicodeDecodeError\<close> (which is not an \<open>OSError\<close>
      and is not caught), or its lines as \<open>readlines\<close> returns them (each with its line end)\<close>

definition digit_char :: "nat \<Rightarrow> char" where
  "digit_char d = char_of (of_char CHR ''0'' + d)"

function decimal_digits :: "nat \<Rightarrow> string \<Rightarrow> string" where
  \<comment> \<open>the decimal digits of \<open>n\<close>, most significant first, put before \<open>acc\<close>\<close>
  "decimal_digits n acc =
     (if n < 10 then digit_char n # acc
      else decimal_digits (n div 10) (digit_char (n mod 10) # acc))"
  by pat_completeness auto
termination
  by (relation "measure fst") auto

definition str_nat :: "nat \<Rightarrow> string" where
  \<comment> \<open>\<open>str(n)\<close> of a non-negative integer\<close>
  "str_nat n = decimal_digits n []"

definition error_keywords :: "string list" where
  "error_keywords =
     [''error'', ''failed'', ''exception'', ''traceback'', ''unhandled'',
      ''device_token_mismatch'', ''unauthorized'', ''timeout'',
      ''connection refused'', ''socket error'']"

definition troubleshooting_keywords :: "string list" where
  "troubleshooting_keywords =
     [''fix'', ''debug'', ''error'', ''issue'', ''problem'', ''troubleshoot'']"

type_synonym error_patterns = "(string \<times> nat) list"
  \<comment> \<open>the \<open>defaultdict(int)\<close> named \<open>error_patterns\<close>, in insertion order\<close>

definition tally_of :: "error_patterns \<Rightarrow> string \<Rightarrow> nat" where
  \<comment> \<open>reading \<open>error_patterns[pattern]\<close>: 0 for a pattern not yet counted\<close>
  "tally_of eps pattern = (case map_of eps pattern of Some n \<Rightarrow> n | None \<Rightarrow> 0)"

definition increment :: "string \<Rightarrow> error_patterns \<Rightarrow> error_patterns" where
  \<comment> \<open>\<open>error_patterns[pattern] += 1\<close>\<close>
  "increment pattern eps = AList.update pattern (tally_of eps pattern + 1) eps"

definition pattern_of :: "string \<Rightarrow> string" where
  \<comment> \<open>\<open>line.strip()[:100]\<close>, the key under which a line is counted\<close>
  "pattern_of line = take 100 (strip line)"

definition tally_line :: "string \<Rightarrow> error_patterns \<Rightarrow> error_patterns" where
  \<comment> \<open>lines 370 to 375: the body of the loop over the lines, itself a loop over the
      keywords\<close>
  "tally_line line eps =
     (let line_lower = lower line
      in fold (\<lambda>keyword eps. if substring_in keyword line_lower
                               then increment (pattern_of line) eps else eps)
           error_keywords eps)"

definition error_hits :: "string \<Rightarrow> nat" where
  \<comment> \<open>the number of error keywords that occur in a line\<close>
  "error_hits line = length (filter (\<lambda>keyword. substring_in keyword (lower line)) error_keywords)"

definition tally :: "string list \<Rightarrow> error_patterns" where
  "tally recent_lines = fold tally_line recent_lines []"

definition last_lines :: "nat \<Rightarrow> 'a list \<Rightarrow> 'a list" where
  \<comment> \<open>the slice \<open>xs[-n:]\<close> for a positive \<open>n\<close>\<close>
  "last_lines n xs = drop (length xs - n) xs"

definition log_check :: "log_file \<Rightarrow> py_error + (bool \<times> string) option" where
  \<comment> \<open>lines 353 to 382: the exception that escapes the log check, or the value returned
      from inside it, if any\<close>
  "log_check lg =
     (case lg of
        LogExistsRaises \<Rightarrow> Inl PermissionError
      | LogMissing \<Rightarrow> Inr None
      | LogUnreadable \<Rightarrow> Inr None
      | LogUndecodable \<Rightarrow> Inl UnicodeDecodeError
      | LogLines lines \<Rightarrow>
          (case find (\<lambda>(pattern, count). 3 \<le> count) (tally (last_lines 200 lines)) of
             Some (pattern, count) \<Rightarrow>
               Inr (Some (True, ''Repeated error detected: '' @ take 50 pattern @ ''... (''
                                @ str_nat count @ '' times)''))
           | None \<Rightarrow> Inr None))"

definition history_check :: "string list \<Rightarrow> string \<Rightarrow> bool \<times> string option" where
  \<comment> \<open>lines 384 to 396\<close>
  "history_check recent_tasks task =
     (let task_normalized = strip (lower task);
          similar_tasks =
            filter (\<lambda>t. \<bar>int (count_char CHR '' '' task_normalized) - int (count_char CHR '' '' t)\<bar> \<le> 2)
              recent_tasks
      in if list_ex (\<lambda>kw. substring_in kw task_normalized) troubleshooting_keywords
            \<and> 2 \<le> length similar_tasks
         then (True, Some (''Similar troubleshooting task attempted ''
                           @ str_nat (length similar_tasks) @ '' times recently''))
         else (False, None))"

definition detect_troubleshooting_loop ::
  "log_file \<Rightarrow> string list \<Rightarrow> string \<Rightarrow> py_error + bool \<times> string option" where
  "detect_troubleshooting_loop lg recent_tasks task =
     (case log_check lg of
        Inl e \<Rightarrow> Inl e
      | Inr (Some (b, reason)) \<Rightarrow> Inr (b, Some reason)
      | Inr None \<Rightarrow> Inr (history_check recent_tasks task))"


section \<open>FridayRouter.spawn_agent\<close>

datatype spawn_recommendation =
    Routed recommendation
  | Diagnosed json
  \<comment> \<open>the entry \<open>recommendation\<close> of the result: the routing recommendation, or on the
      diagnosis path the fixed CODE tier and model with the diagnosis\<close>

record spawn_result =
  params :: "(string \<times> json) list"
  spawn_recommendation :: spawn_recommendation

record spawn_outcome =
  returned :: "py_error + spawn_result"
  recent_tasks :: "string list"
  stderr :: "string list"

definition tier_name :: "tier \<Rightarrow> string" where
  "tier_name t =
     (case t of FAST \<Rightarrow> ''FAST'' | REASONING \<Rightarrow> ''REASONING'' | CREATIVE \<Rightarrow> ''CREATIVE''
      | RESEARCH \<Rightarrow> ''RESEARCH'' | CODE \<Rightarrow> ''CODE'' | COMPLEX \<Rightarrow> ''COMPLEX''
      | VISION \<Rightarrow> ''VISION'' | QUALITY \<Rightarrow> ''QUALITY'')"

definition format_value :: "(json \<Rightarrow> string) \<Rightarrow> json \<Rightarrow> string" where
  \<comment> \<open>a value inside an f-string: a string as it is, anything else through \<open>str\<close>\<close>
  "format_value str_of v = (case v of JString s \<Rightarrow> s | _ \<Rightarrow> str_of v)"

definition normal_dispatch ::
  "config \<Rightarrow> string list \<Rightarrow> string list \<Rightarrow> string \<Rightarrow> string \<Rightarrow> string option \<Rightarrow> spawn_outcome" where
  \<comment> \<open>lines 457 to 482; \<open>err\<close> is what has been printed to the standard error so far\<close>
  "normal_dispatch cfg tasks err task session_target label =
     (let rcm = recommend_model cfg task
      in case rec_model rcm of
           None \<Rightarrow>
             \<lparr>returned = Inl (ValueError (''No model found for tier: '' @ tier_name (rec_tier rcm))),
              recent_tasks = tasks, stderr = err\<rparr>
         | Some m \<Rightarrow>
             \<lparr>returned = Inr
                \<lparr>params =
                   [(''task'', JString task), (''model'', JString (model_id m)),
                    (''sessionTarget'', JString session_target)]
                   @ (case label of
                        Some l \<Rightarrow> if l \<noteq> [] then [(''label'', JString l)] else []
                      | None \<Rightarrow> []),
                 spawn_recommendation = Routed rcm\<rparr>,
              recent_tasks = last_lines 10 (tasks @ [strip (lower task)]),
              stderr = err\<rparr>)"

definition spawn_agent ::
  "(json \<Rightarrow> string) \<Rightarrow> config \<Rightarrow> log_file \<Rightarrow> json \<times> string option \<Rightarrow> string list
     \<Rightarrow> string \<Rightarrow> string \<Rightarrow> string option \<Rightarrow> spawn_outcome" where
  \<comment> \<open>\<open>spawn_agent(task, session_target, label)\<close>. \<open>str_of\<close> is Python's \<open>str\<close> on decoded values,
      \<open>facepalm\<close> is what \<open>_invoke_facepalm\<close> returns if it is called (the diagnosis, \<open>JNull\<close>
      for \<open>None\<close>, and the error text), \<open>tasks\<close> is \<open>self.recent_tasks\<close> before the call.\<close>
  "spawn_agent str_of cfg lg facepalm tasks task session_target label =
     (case detect_troubleshooting_loop lg tasks task of
        Inl e \<Rightarrow> \<lparr>returned = Inl e, recent_tasks = tasks, stderr = []\<rparr>
      | Inr (True, loop_reason) \<Rightarrow>
          (let (diagnosis, error) = facepalm
           in if truthy diagnosis then
                (case get diagnosis ''diagnosis'' (JString (str_of diagnosis)) of
                   Inl e \<Rightarrow> \<lparr>returned = Inl e, recent_tasks = tasks, stderr = []\<rparr>
                 | Inr d \<Rightarrow>
                     \<lparr>returned = Inr
                        \<lparr>params =
                           [(''task'', JString (''FACEPALM Diagnosis: ''
                               @ (case loop_reason of Some r \<Rightarrow> r | None \<Rightarrow> ''None'')
                               @ [CHR 0x0A, CHR 0x0A] @ format_value str_of d)),
                            (''model'', JString ''openrouter/openai/gpt-5.3-codex''),
                            (''sessionTarget'', JString session_target),
                            (''facepalm_invoked'', JBool True)],
                         spawn_recommendation = Diagnosed diagnosis\<rparr>,
                      recent_tasks = tasks, stderr = []\<rparr>)
              else
                normal_dispatch cfg tasks
                  [''Warning: Troubleshooting loop detected but FACEPALM failed: ''
                   @ (case error of Some e \<Rightarrow> e | None \<Rightarrow> ''None'')]
                  task session_target label)
      | Inr (False, _) \<Rightarrow> normal_dispatch cfg tasks [] task session_target label)"


section \<open>get_openclaw_gateway_config and the output of \<open>spawn --json\<close>\<close>












section \<open>The gateway watchdog\<close>
















definition normal_path :: "log_file \<Rightarrow> json \<times> string option \<Rightarrow> string list \<Rightarrow> string \<Rightarrow> bool" where
  \<comment> \<open>\<open>spawn_agent\<close> reaches its normal routing (line 457): the loop detection returned,
      and no loop was detected or the diagnosis came back empty\<close>
  "normal_path lg facepalm tasks task =
     (case detect_troubleshooting_loop lg tasks task of
        Inl e \<Rightarrow> False
      | Inr (is_loop, loop_reason) \<Rightarrow> \<not> is_loop \<or> \<not> truthy (fst facepalm))"


section \<open>Sample inputs\<close>

definition model_a :: model where
  "model_a = \<lparr>model_id = ''vendor/a'', model_alias = ''A'', model_tier = ''FAST'',
              input_cost_per_m = 1, output_cost_per_m = 2, use_for = []\<rparr>"

definition model_b :: model where
  "model_b = \<lparr>model_id = ''vendor/b'', model_alias = ''B'', model_tier = ''FAST'',
              input_cost_per_m = 3, output_cost_per_m = 4, use_for = []\<rparr>"

definition two_fallbacks :: config where
  \<comment> \<open>both fallback ids of the FAST tier are configured models\<close>
  "two_fallbacks =
     \<lparr>default_model = None, models = [model_a, model_b],
      routing_rules = [FAST \<mapsto> \<lparr>primary = Some ''vendor/a'',
                                  fallback = [''vendor/a'', ''vendor/b'']\<rparr>]\<rparr>"

definition no_primary :: config where
  \<comment> \<open>the primary id of the FAST tier is not a configured model\<close>
  "no_primary =
     \<lparr>default_model = None, models = [model_a, model_b],
      routing_rules = [FAST \<mapsto> \<lparr>primary = Some ''vendor/c'', fallback = [''vendor/a'']\<rparr>]\<rparr>"

definition failed_line :: string where
  \<comment> \<open>one log line in which two of the error keywords occur\<close>
  "failed_line = ''error: request failed'' @ [CHR 0x0A]"

definition no_str :: "json \<Rightarrow> string" where
  \<comment> \<open>a stand-in for \<open>str\<close> where its result is not looked at\<close>
  "no_str v = []"








section \<open>Properties of the classifier\<close>

lemma select_tier_public: "select_tier ts website \<in> public_tiers"
  by (cases "max_key ts") (simp_all add: select_tier_def public_tiers_def Let_def)

lemma classify_task_tier:
  "tier (classify_task t) =
     (if 0 < keyword_match t vision_keywords then VISION
      else select_tier (adjust_scores (agentic t) (initial_scores t))
             (0 < keyword_match t website_project_keywords))"
  by (simp add: classify_task_def Let_def)

text \<open>
  C7. For every task string the tier returned by \<open>classify_task\<close> is one of VISION, FAST,
  REASONING, CREATIVE, RESEARCH, CODE and QUALITY; the internal bucket COMPLEX is never
  returned.
\<close>

theorem classify_task_public_tier:
  "tier (classify_task task_description) \<in> public_tiers
   \<and> tier (classify_task task_description) \<noteq> COMPLEX"
proof -
  have "tier (classify_task task_description) \<in> public_tiers"
    by (simp add: classify_task_tier select_tier_public) (simp add: public_tiers_def)
  moreover have "COMPLEX \<notin> public_tiers"
    by (simp add: public_tiers_def)
  ultimately show ?thesis
    by auto
qed

theorem classify_task_public_tier_witness:
  "tier (classify_task ''build a database service'') = QUALITY
   \<and> tier (classify_task ''build a database service'') \<in> public_tiers"
proof -
  have "tier (classify_task ''build a database service'') = QUALITY"
    by code_simp
  then show ?thesis
    using classify_task_public_tier [of "''build a database service''"] by simp
qed

lemma adjust_initial:
  "adjust_scores ag (initial_scores t) =
     [(FAST, if ag then 0 else keyword_match t SIMPLE_KEYWORDS),
      (REASONING, keyword_match t REASONING_KEYWORDS),
      (CREATIVE, keyword_match t CREATIVE_KEYWORDS),
      (RESEARCH, keyword_match t RESEARCH_KEYWORDS),
      (CODE, if ag then keyword_match t CODE_KEYWORDS + 2 else keyword_match t CODE_KEYWORDS),
      (COMPLEX, keyword_match t COMPLEX_KEYWORDS),
      (VISION, keyword_match t vision_keywords)]"
  by (simp add: adjust_scores_def initial_scores_def score_def Let_def)

lemma select_agentic_not_fast:
  "select_tier [(FAST, 0), (REASONING, r), (CREATIVE, c), (RESEARCH, rs), (CODE, cd + 2),
                (COMPLEX, cx), (VISION, v)] w \<noteq> FAST"
  by (simp add: select_tier_def max_key_def max_value_def score_def Let_def)

lemma select_website:
  "\<not> (0 < cx \<and> 0 < f \<and> f \<le> cx) \<Longrightarrow>
   select_tier [(FAST, f), (REASONING, r), (CREATIVE, c), (RESEARCH, rs), (CODE, cd),
                (COMPLEX, cx), (VISION, v)] True = CREATIVE"
  by (auto simp add: select_tier_def score_def Let_def)

lemma select_zero:
  "select_tier [(FAST, 0), (REASONING, 0), (CREATIVE, 0), (RESEARCH, 0), (CODE, 0),
                (COMPLEX, 0), (VISION, 0)] False = FAST"
  by (simp add: select_tier_def max_value_def score_def Let_def)

text \<open>
  C1, as amended. For every task string with no vision keyword and at least one website
  keyword, \<open>classify_task\<close> returns CREATIVE unless the complex-versus-fast rule applies,
  that is, whenever the task is agentic (which sets the FAST score to 0), or no FAST keyword
  matches, or fewer COMPLEX than FAST keywords match.
\<close>

theorem website_override_creative:
  assumes "keyword_match task_description vision_keywords = 0"
    and "0 < keyword_match task_description website_project_keywords"
    and "agentic task_description
         \<or> keyword_match task_description SIMPLE_KEYWORDS = 0
         \<or> keyword_match task_description COMPLEX_KEYWORDS
             < keyword_match task_description SIMPLE_KEYWORDS"
  shows "tier (classify_task task_description) = CREATIVE"
proof -
  from assms(3) show ?thesis
    unfolding classify_task_tier adjust_initial using assms(1,2)
    by (auto intro!: select_website)
qed

theorem website_override_creative_witness:
  "keyword_match ''build a landing page for my startup'' vision_keywords = 0
   \<and> 0 < keyword_match ''build a landing page for my startup'' website_project_keywords
   \<and> keyword_match ''build a landing page for my startup'' SIMPLE_KEYWORDS = 0
   \<and> tier (classify_task ''build a landing page for my startup'') = CREATIVE"
proof -
  have v: "keyword_match ''build a landing page for my startup'' vision_keywords = 0"
    by code_simp
  have w: "0 < keyword_match ''build a landing page for my startup'' website_project_keywords"
    by code_simp
  have f: "keyword_match ''build a landing page for my startup'' SIMPLE_KEYWORDS = 0"
    by code_simp
  from f have
    "agentic ''build a landing page for my startup''
     \<or> keyword_match ''build a landing page for my startup'' SIMPLE_KEYWORDS = 0
     \<or> keyword_match ''build a landing page for my startup'' COMPLEX_KEYWORDS
         < keyword_match ''build a landing page for my startup'' SIMPLE_KEYWORDS"
    by simp
  from website_override_creative [OF v w this] v w f show ?thesis
    by simp
qed

text \<open>
  The claim C1 as it is written fails twice: a vision keyword sends a website task to
  VISION, and a website task in which as many COMPLEX as FAST keywords match leaves the
  website rule with CODE.
\<close>

theorem website_override_counterexample:
  "0 < keyword_match ''screenshot of a website'' website_project_keywords
   \<and> tier (classify_task ''screenshot of a website'') = VISION
   \<and> 0 < keyword_match ''check and build a website'' website_project_keywords
   \<and> keyword_match ''check and build a website'' vision_keywords = 0
   \<and> keyword_match ''check and build a website'' SIMPLE_KEYWORDS = 1
   \<and> keyword_match ''check and build a website'' COMPLEX_KEYWORDS = 1
   \<and> tier (classify_task ''check and build a website'') = CODE"
  by code_simp

text \<open>
  C5, as amended. For every task string in which no keyword of any scoring category
  matches, which is not agentic (fewer than two agentic keywords and no multi-step
  pattern) and in which no website keyword matches, \<open>classify_task\<close> returns the tier FAST
  and the confidence 0.
\<close>

theorem no_match_fast:
  assumes "keyword_match task_description SIMPLE_KEYWORDS = 0"
    and "keyword_match task_description REASONING_KEYWORDS = 0"
    and "keyword_match task_description CREATIVE_KEYWORDS = 0"
    and "keyword_match task_description RESEARCH_KEYWORDS = 0"
    and "keyword_match task_description CODE_KEYWORDS = 0"
    and "keyword_match task_description COMPLEX_KEYWORDS = 0"
    and "keyword_match task_description vision_keywords = 0"
    and "\<not> agentic task_description"
    and "keyword_match task_description website_project_keywords = 0"
  shows "tier (classify_task task_description) = FAST
         \<and> confidence (classify_task task_description) = 0"
proof -
  have "tier (classify_task task_description) = FAST"
    unfolding classify_task_tier adjust_initial using assms by (simp add: select_zero)
  moreover have "confidence (classify_task task_description) = 0"
    using assms
    by (simp add: classify_task_def Let_def adjust_initial max_value_def round3_def)
  ultimately show ?thesis
    by simp
qed

theorem no_match_fast_witness:
  "keyword_match ''hello world'' SIMPLE_KEYWORDS = 0
   \<and> \<not> agentic ''hello world''
   \<and> tier (classify_task ''hello world'') = FAST
   \<and> confidence (classify_task ''hello world'') = 0"
proof -
  have h: "keyword_match ''hello world'' SIMPLE_KEYWORDS = 0"
    "keyword_match ''hello world'' REASONING_KEYWORDS = 0"
    "keyword_match ''hello world'' CREATIVE_KEYWORDS = 0"
    "keyword_match ''hello world'' RESEARCH_KEYWORDS = 0"
    "keyword_match ''hello world'' CODE_KEYWORDS = 0"
    "keyword_match ''hello world'' COMPLEX_KEYWORDS = 0"
    "keyword_match ''hello world'' vision_keywords = 0"
    "\<not> agentic ''hello world''"
    "keyword_match ''hello world'' website_project_keywords = 0"
    by code_simp+
  from no_match_fast [OF h] h(1,8) show ?thesis
    by simp
qed

text \<open>
  The claim C5 as it is written fails on an agentic task and on a website task in which no
  category keyword matches.
\<close>

theorem no_match_counterexample:
  "keyword_match ''run and deploy'' SIMPLE_KEYWORDS = 0
   \<and> keyword_match ''run and deploy'' REASONING_KEYWORDS = 0
   \<and> keyword_match ''run and deploy'' CREATIVE_KEYWORDS = 0
   \<and> keyword_match ''run and deploy'' RESEARCH_KEYWORDS = 0
   \<and> keyword_match ''run and deploy'' CODE_KEYWORDS = 0
   \<and> keyword_match ''run and deploy'' COMPLEX_KEYWORDS = 0
   \<and> keyword_match ''run and deploy'' vision_keywords = 0
   \<and> tier (classify_task ''run and deploy'') = CODE
   \<and> confidence (classify_task ''run and deploy'') = 2 / 5
   \<and> keyword_match ''new site'' SIMPLE_KEYWORDS = 0
   \<and> keyword_match ''new site'' REASONING_KEYWORDS = 0
   \<and> keyword_match ''new site'' CREATIVE_KEYWORDS = 0
   \<and> keyword_match ''new site'' RESEARCH_KEYWORDS = 0
   \<and> keyword_match ''new site'' CODE_KEYWORDS = 0
   \<and> keyword_match ''new site'' COMPLEX_KEYWORDS = 0
   \<and> keyword_match ''new site'' vision_keywords = 0
   \<and> tier (classify_task ''new site'') = CREATIVE"
  by code_simp

text \<open>
  C6. For every task string on the non-vision path with at least two agentic keywords or a
  matching multi-step pattern, in which some FAST keyword matches, \<open>classify_task\<close> does not
  return the tier FAST.
\<close>

theorem agentic_never_fast:
  assumes "keyword_match task_description vision_keywords = 0"
    and "2 \<le> keyword_match task_description AGENTIC_KEYWORDS \<or> is_multi_step task_description"
    and "0 < keyword_match task_description SIMPLE_KEYWORDS"
  shows "tier (classify_task task_description) \<noteq> FAST"
proof -
  from assms(2) have "agentic task_description"
    by (simp add: agentic_def)
  then have sel: "tier (classify_task task_description) =
      select_tier
        [(FAST, 0),
         (REASONING, keyword_match task_description REASONING_KEYWORDS),
         (CREATIVE, keyword_match task_description CREATIVE_KEYWORDS),
         (RESEARCH, keyword_match task_description RESEARCH_KEYWORDS),
         (CODE, keyword_match task_description CODE_KEYWORDS + 2),
         (COMPLEX, keyword_match task_description COMPLEX_KEYWORDS),
         (VISION, keyword_match task_description vision_keywords)]
        (0 < keyword_match task_description website_project_keywords)"
    using assms(1) by (simp add: classify_task_tier adjust_initial)
  show ?thesis
    unfolding sel by (rule select_agentic_not_fast)
qed

theorem agentic_never_fast_witness:
  "keyword_match ''check, run and deploy'' vision_keywords = 0
   \<and> 2 \<le> keyword_match ''check, run and deploy'' AGENTIC_KEYWORDS
   \<and> 0 < keyword_match ''check, run and deploy'' SIMPLE_KEYWORDS
   \<and> tier (classify_task ''check, run and deploy'') \<noteq> FAST"
proof -
  have v: "keyword_match ''check, run and deploy'' vision_keywords = 0"
    by code_simp
  have a: "2 \<le> keyword_match ''check, run and deploy'' AGENTIC_KEYWORDS"
    by code_simp
  have f: "0 < keyword_match ''check, run and deploy'' SIMPLE_KEYWORDS"
    by code_simp
  from a have "2 \<le> keyword_match ''check, run and deploy'' AGENTIC_KEYWORDS
               \<or> is_multi_step ''check, run and deploy''"
    by simp
  from agentic_never_fast [OF v this f] v a f show ?thesis
    by simp
qed

text \<open>
  C9, as amended. For every task on the non-vision path, \<open>tier_scores\<close> in the returned
  classification lists, in the order FAST, REASONING, CREATIVE, RESEARCH, CODE, COMPLEX,
  the categories of positive score, where the score of a category is its keyword-hit count,
  except that for an agentic task the score of CODE is its count plus 2 and the score of
  FAST is 0.
\<close>

theorem tier_scores_adjusted:
  assumes "keyword_match task_description vision_keywords = 0"
  shows "tier_scores (classify_task task_description) =
           filter (\<lambda>kv. 0 < snd kv)
             [(FAST, if agentic task_description then 0
                     else keyword_match task_description SIMPLE_KEYWORDS),
              (REASONING, keyword_match task_description REASONING_KEYWORDS),
              (CREATIVE, keyword_match task_description CREATIVE_KEYWORDS),
              (RESEARCH, keyword_match task_description RESEARCH_KEYWORDS),
              (CODE, if agentic task_description
                     then keyword_match task_description CODE_KEYWORDS + 2
                     else keyword_match task_description CODE_KEYWORDS),
              (COMPLEX, keyword_match task_description COMPLEX_KEYWORDS)]"
  using assms by (simp add: classify_task_def Let_def adjust_initial)

theorem tier_scores_adjusted_witness:
  "keyword_match ''build a landing page for my startup'' vision_keywords = 0
   \<and> tier_scores (classify_task ''build a landing page for my startup'')
       = [(CREATIVE, 2), (COMPLEX, 1)]"
proof -
  have v: "keyword_match ''build a landing page for my startup'' vision_keywords = 0"
    by code_simp
  have "filter (\<lambda>kv. 0 < snd kv)
             [(FAST, if agentic ''build a landing page for my startup'' then 0
                     else keyword_match ''build a landing page for my startup'' SIMPLE_KEYWORDS),
              (REASONING, keyword_match ''build a landing page for my startup'' REASONING_KEYWORDS),
              (CREATIVE, keyword_match ''build a landing page for my startup'' CREATIVE_KEYWORDS),
              (RESEARCH, keyword_match ''build a landing page for my startup'' RESEARCH_KEYWORDS),
              (CODE, if agentic ''build a landing page for my startup''
                     then keyword_match ''build a landing page for my startup'' CODE_KEYWORDS + 2
                     else keyword_match ''build a landing page for my startup'' CODE_KEYWORDS),
              (COMPLEX, keyword_match ''build a landing page for my startup'' COMPLEX_KEYWORDS)]
        = [(CREATIVE, 2), (COMPLEX, 1)]"
    by code_simp
  with tier_scores_adjusted [OF v] v show ?thesis
    by simp
qed

text \<open>
  The claim C9 as it is written fails on an agentic task: the FAST keyword that matches is
  left out and CODE, of which no keyword matches, is listed with 2.
\<close>

theorem tier_scores_counterexample:
  "keyword_match ''check, run and deploy'' vision_keywords = 0
   \<and> keyword_match ''check, run and deploy'' SIMPLE_KEYWORDS = 1
   \<and> keyword_match ''check, run and deploy'' CODE_KEYWORDS = 0
   \<and> tier_scores (classify_task ''check, run and deploy'') = [(CODE, 2)]"
  by code_simp

section \<open>Properties of the model resolver\<close>

lemma find_snoc:
  "find P (xs @ [x]) = (case find P xs of Some y \<Rightarrow> Some y | None \<Rightarrow> if P x then Some x else None)"
  by (induction xs) simp_all

lemma resolve_fallback_last:
  "resolve_fallback cfg ids fb =
     (case find (\<lambda>i. find_model cfg i \<noteq> None) (rev ids) of
        Some i \<Rightarrow> find_model cfg i
      | None \<Rightarrow> fb)"
proof (induction ids arbitrary: fb)
  case Nil
  show ?case by simp
next
  case (Cons i ids)
  show ?case
    by (cases "find_model cfg i")
       (auto simp: Cons.IH find_snoc split: option.splits)
qed

text \<open>
  C2 at the failing input. The FAST tier lists the fallback ids \<open>vendor/a\<close> and \<open>vendor/b\<close>,
  both configured; \<open>recommend_model\<close> returns the model of the second id, not of the first.
\<close>

theorem recommend_model_fallback_is_last:
  "fallback (the (routing_rules two_fallbacks FAST)) = [''vendor/a'', ''vendor/b'']
   \<and> find_model two_fallbacks ''vendor/a'' = Some model_a
   \<and> rec_tier (recommend_model two_fallbacks ''hello world'') = FAST
   \<and> rec_fallback (recommend_model two_fallbacks ''hello world'') = Some model_b
   \<and> model_b \<noteq> model_a"
proof -
  have t: "tier (classify_task ''hello world'') = FAST"
    by code_simp
  show ?thesis
    by (simp add: recommend_model_def Let_def t two_fallbacks_def find_model_def
        model_a_def model_b_def)
qed


section \<open>Properties of the loop detector and the dispatcher\<close>

text \<open>
  What the log check computes: a loop is reported exactly when, for some pattern, the error
  keywords found in the lines of that pattern among the last 200 lines add up to 3 or more.
  Three occurrences of an error line are therefore enough.
\<close>

lemma tally_of_increment:
  "tally_of (increment q eps) p = tally_of eps p + (if p = q then 1 else 0)"
  by (simp add: increment_def tally_of_def update_conv')

lemma tally_of_fold_keywords:
  "tally_of (fold (\<lambda>keyword eps. if substring_in keyword ll then increment q eps else eps) ks eps) p
     = tally_of eps p + (if p = q then length (filter (\<lambda>keyword. substring_in keyword ll) ks) else 0)"
  by (induction ks arbitrary: eps) (simp_all add: tally_of_increment)

lemma tally_of_tally_line:
  "tally_of (tally_line l eps) p = tally_of eps p + (if p = pattern_of l then error_hits l else 0)"
  by (simp add: tally_line_def Let_def error_hits_def tally_of_fold_keywords)

lemma tally_of_fold_lines:
  "tally_of (fold tally_line ls eps) p
     = tally_of eps p + (\<Sum>l\<leftarrow>ls. if p = pattern_of l then error_hits l else 0)"
  by (induction ls arbitrary: eps) (simp_all add: tally_of_tally_line)

lemma tally_of_tally:
  "tally_of (tally ls) p = (\<Sum>l\<leftarrow>ls. if p = pattern_of l then error_hits l else 0)"
proof -
  have "tally_of [] p = 0"
    by (simp add: tally_of_def)
  then show ?thesis
    by (simp add: tally_def tally_of_fold_lines)
qed

lemma distinct_increment:
  "distinct (map fst eps) \<Longrightarrow> distinct (map fst (increment q eps))"
  by (simp add: increment_def distinct_update)

lemma distinct_tally_line:
  "distinct (map fst eps) \<Longrightarrow> distinct (map fst (tally_line l eps))"
proof -
  have "distinct (map fst eps) \<Longrightarrow>
        distinct (map fst (fold (\<lambda>keyword eps. if substring_in keyword ll then increment q eps else eps) ks eps))"
    for ll q ks
    by (induction ks arbitrary: eps) (simp_all add: distinct_increment)
  then show "distinct (map fst eps) \<Longrightarrow> distinct (map fst (tally_line l eps))"
    by (simp add: tally_line_def Let_def)
qed

lemma distinct_tally: "distinct (map fst (tally ls))"
proof -
  have "distinct (map fst eps) \<Longrightarrow> distinct (map fst (fold tally_line ls eps))" for eps
    by (induction ls arbitrary: eps) (simp_all add: distinct_tally_line)
  then show ?thesis
    by (simp add: tally_def)
qed

lemma find_tally_iff:
  assumes "distinct (map fst eps)"
  shows "find (\<lambda>(pattern, count). 3 \<le> count) eps \<noteq> None \<longleftrightarrow> (\<exists>p. 3 \<le> tally_of eps p)"
proof
  assume "find (\<lambda>(pattern, count). 3 \<le> count) eps \<noteq> None"
  then obtain p c where "(p, c) \<in> set eps" "3 \<le> c"
    by (auto simp: find_None_iff)
  with assms have "tally_of eps p = c"
    by (simp add: tally_of_def)
  with \<open>3 \<le> c\<close> show "\<exists>p. 3 \<le> tally_of eps p"
    by auto
next
  assume "\<exists>p. 3 \<le> tally_of eps p"
  then obtain p where p: "3 \<le> tally_of eps p" ..
  then obtain c where "map_of eps p = Some c" "3 \<le> c"
    by (cases "map_of eps p") (simp_all add: tally_of_def)
  then have "(p, c) \<in> set eps"
    by (simp add: map_of_SomeD)
  with \<open>3 \<le> c\<close> show "find (\<lambda>(pattern, count). 3 \<le> count) eps \<noteq> None"
    by (auto simp: find_None_iff)
qed

lemma log_check_iff:
  "log_check (LogLines lines) \<noteq> Inr None \<longleftrightarrow>
     (\<exists>p. 3 \<le> (\<Sum>l\<leftarrow>last_lines 200 lines. if p = pattern_of l then error_hits l else 0))"
proof -
  have a: "log_check (LogLines lines) \<noteq> Inr None \<longleftrightarrow>
          find (\<lambda>(pattern, count). 3 \<le> count) (tally (last_lines 200 lines)) \<noteq> None"
    by (auto simp: log_check_def split: option.splits)
  have b: "find (\<lambda>(pattern, count). 3 \<le> count) (tally (last_lines 200 lines)) \<noteq> None
           \<longleftrightarrow> (\<exists>p. 3 \<le> tally_of (tally (last_lines 200 lines)) p)"
    by (rule find_tally_iff [OF distinct_tally])
  show ?thesis
    by (simp only: a b tally_of_tally)
qed

lemma sum_hits_ge_occurrences:
  "length (filter (\<lambda>l. pattern_of l = p \<and> 0 < error_hits l) ls)
     \<le> (\<Sum>l\<leftarrow>ls. if p = pattern_of l then error_hits l else 0)"
  by (induction ls) auto

lemma log_check_three_occurrences:
  assumes "3 \<le> length (filter (\<lambda>l. pattern_of l = p \<and> 0 < error_hits l) (last_lines 200 lines))"
  shows "\<exists>reason. detect_troubleshooting_loop (LogLines lines) tasks task = Inr (True, reason)"
proof -
  from assms sum_hits_ge_occurrences [of p "last_lines 200 lines"]
  have "log_check (LogLines lines) \<noteq> Inr None"
    unfolding log_check_iff by (meson le_trans)
  then obtain r where "log_check (LogLines lines) = Inr (Some (True, r))"
    by (auto simp: log_check_def split: option.splits)
  then show ?thesis
    by (simp add: detect_troubleshooting_loop_def)
qed

text \<open>
  C4 at the failing input. The log holds the same error line exactly twice; the line
  contains two error keywords, so its tally is 4 and a loop is reported, where the claim
  says that two occurrences report none.
\<close>

theorem log_check_two_occurrences:
  "detect_troubleshooting_loop (LogLines [failed_line, failed_line]) [] ''hello''
     = Inr (True, Some ''Repeated error detected: error: request failed... (4 times)'')"
  by code_simp

lemma spawn_agent_normal:
  assumes "normal_path lg facepalm tasks task"
  shows "\<exists>err. spawn_agent str_of cfg lg facepalm tasks task st label
               = normal_dispatch cfg tasks err task st label"
proof (cases "detect_troubleshooting_loop lg tasks task")
  case (Inl e)
  with assms show ?thesis
    by (simp add: normal_path_def)
next
  case (Inr found)
  obtain is_loop loop_reason where found: "found = (is_loop, loop_reason)"
    by (cases found)
  obtain diagnosis error where facepalm: "facepalm = (diagnosis, error)"
    by (cases facepalm)
  show ?thesis
  proof (cases is_loop)
    case True
    with assms Inr found facepalm have "\<not> truthy diagnosis"
      by (simp add: normal_path_def)
    with Inr found facepalm True show ?thesis
      by (auto simp: spawn_agent_def)
  next
    case False
    with Inr found show ?thesis
      by (auto simp: spawn_agent_def)
  qed
qed

lemma spawn_agent_diagnosis:
  assumes "\<not> normal_path lg facepalm tasks task"
  shows "recent_tasks (spawn_agent str_of cfg lg facepalm tasks task st label) = tasks"
proof (cases "detect_troubleshooting_loop lg tasks task")
  case (Inl e)
  then show ?thesis
    by (simp add: spawn_agent_def)
next
  case (Inr found)
  obtain is_loop loop_reason where found: "found = (is_loop, loop_reason)"
    by (cases found)
  obtain diagnosis error where facepalm: "facepalm = (diagnosis, error)"
    by (cases facepalm)
  from assms Inr found facepalm have "is_loop" "truthy diagnosis"
    by (simp_all add: normal_path_def)
  with Inr found facepalm show ?thesis
    by (cases diagnosis) (simp_all add: spawn_agent_def get_def)
qed

lemma normal_dispatch_cases:
  "(isl (returned (normal_dispatch cfg tasks err task st label))
      \<longleftrightarrow> rec_model (recommend_model cfg task) = None)
   \<and> (isl (returned (normal_dispatch cfg tasks err task st label))
        \<longrightarrow> recent_tasks (normal_dispatch cfg tasks err task st label) = tasks)
   \<and> (\<not> isl (returned (normal_dispatch cfg tasks err task st label))
        \<longrightarrow> recent_tasks (normal_dispatch cfg tasks err task st label)
             = last_lines 10 (tasks @ [strip (lower task)]))"
  by (cases "rec_model (recommend_model cfg task)") (simp_all add: normal_dispatch_def Let_def)


text \<open>
  C8. On the normal dispatch path \<open>spawn_agent\<close> raises exactly when the primary model
  resolved for the classified tier is null; when it raises the task history is unchanged,
  when it returns the history is the old one with the normalised task appended, cut to its
  last 10 entries; off the normal path the history is unchanged.
\<close>

theorem spawn_agent_raises_iff_no_model:
  "(normal_path lg facepalm tasks task \<longrightarrow>
      (isl (returned (spawn_agent str_of cfg lg facepalm tasks task st label))
         \<longleftrightarrow> rec_model (recommend_model cfg task) = None)
      \<and> (isl (returned (spawn_agent str_of cfg lg facepalm tasks task st label))
           \<longrightarrow> recent_tasks (spawn_agent str_of cfg lg facepalm tasks task st label) = tasks)
      \<and> (\<not> isl (returned (spawn_agent str_of cfg lg facepalm tasks task st label))
           \<longrightarrow> recent_tasks (spawn_agent str_of cfg lg facepalm tasks task st label)
                = last_lines 10 (tasks @ [strip (lower task)])))
   \<and> (\<not> normal_path lg facepalm tasks task \<longrightarrow>
        recent_tasks (spawn_agent str_of cfg lg facepalm tasks task st label) = tasks)"
proof (cases "normal_path lg facepalm tasks task")
  case True
  from spawn_agent_normal [OF True] obtain err where
    eq: "spawn_agent str_of cfg lg facepalm tasks task st label
           = normal_dispatch cfg tasks err task st label"
    by blast
  show ?thesis
    unfolding eq using True normal_dispatch_cases [of cfg tasks err task st label] by blast
next
  case False
  then show ?thesis
    by (simp add: spawn_agent_diagnosis)
qed

theorem spawn_agent_raises_iff_no_model_witness:
  "normal_path LogMissing (JNull, None) [''a''] ''Hello World''
   \<and> rec_model (recommend_model two_fallbacks ''Hello World'') = Some model_a
   \<and> \<not> isl (returned (spawn_agent no_str two_fallbacks LogMissing (JNull, None) [''a'']
                ''Hello World'' ''isolated'' None))
   \<and> recent_tasks (spawn_agent no_str two_fallbacks LogMissing (JNull, None) [''a'']
                ''Hello World'' ''isolated'' None) = [''a'', ''hello world'']
   \<and> rec_model (recommend_model no_primary ''Hello World'') = None
   \<and> isl (returned (spawn_agent no_str no_primary LogMissing (JNull, None) [''a'']
                ''Hello World'' ''isolated'' None))
   \<and> recent_tasks (spawn_agent no_str no_primary LogMissing (JNull, None) [''a'']
                ''Hello World'' ''isolated'' None) = [''a'']
   \<and> \<not> normal_path (LogLines [failed_line, failed_line])
          (JObject [(''diagnosis'', JString ''restart'')], None) [''a''] ''Hello World''
   \<and> recent_tasks (spawn_agent no_str two_fallbacks (LogLines [failed_line, failed_line])
          (JObject [(''diagnosis'', JString ''restart'')], None) [''a'']
          ''Hello World'' ''isolated'' None) = [''a'']"
proof -
  have np: "normal_path LogMissing (JNull, None) [''a''] ''Hello World''"
    by (simp add: normal_path_def detect_troubleshooting_loop_def log_check_def
        split: prod.splits)
  have t: "tier (classify_task ''Hello World'') = FAST"
    by code_simp
  have m1: "rec_model (recommend_model two_fallbacks ''Hello World'') = Some model_a"
    by (simp add: recommend_model_def Let_def t two_fallbacks_def find_model_def
        model_a_def model_b_def)
  have m2: "rec_model (recommend_model no_primary ''Hello World'') = None"
    by (simp add: recommend_model_def Let_def t no_primary_def find_model_def
        model_a_def model_b_def)
  have l: "last_lines 10 ([''a''] @ [strip (lower ''Hello World'')]) = [''a'', ''hello world'']"
    by code_simp
  have d: "detect_troubleshooting_loop (LogLines [failed_line, failed_line]) [''a'']
             ''Hello World''
           = Inr (True, Some ''Repeated error detected: error: request failed... (4 times)'')"
    by code_simp
  have nn: "\<not> normal_path (LogLines [failed_line, failed_line])
          (JObject [(''diagnosis'', JString ''restart'')], None) [''a''] ''Hello World''"
    by (simp add: normal_path_def d)
  from np m1 m2 l nn
    spawn_agent_raises_iff_no_model [of LogMissing "(JNull, None)" "[''a'']" "''Hello World''"
      no_str two_fallbacks "''isolated''" None]
    spawn_agent_raises_iff_no_model [of LogMissing "(JNull, None)" "[''a'']" "''Hello World''"
      no_str no_primary "''isolated''" None]
    spawn_agent_raises_iff_no_model [of "LogLines [failed_line, failed_line]"
      "(JObject [(''diagnosis'', JString ''restart'')], None)" "[''a'']" "''Hello World''"
      no_str two_fallbacks "''isolated''" None]
  show ?thesis
    by simp
qed


section \<open>Properties of the gateway configuration and the watchdog\<close>







end
